theory Spec2Isabelle
  imports Main "HOL-Library.Word"
begin

section \<open>Token validator of the backend (internal/auth/keycloak.go)\<close>

text \<open>
  The theory embeds the functions of \<^verbatim>\<open>backend/internal/auth/keycloak.go\<close>:
  \<^verbatim>\<open>refreshPublicKeys\<close>, \<^verbatim>\<open>parseRSAPublicKey\<close>, \<^verbatim>\<open>getPublicKey\<close>,
  \<^verbatim>\<open>ValidateToken\<close>, \<^verbatim>\<open>validateAudience\<close>, \<^verbatim>\<open>ExtractBearerToken\<close> and
  \<^verbatim>\<open>HasRole\<close>. The model is sequential: the read/write lock \<^verbatim>\<open>mu\<close> is left out, the
  key cache is a map that each function receives and returns.

  What the file calls in other packages (\<^verbatim>\<open>net/http\<close>, \<^verbatim>\<open>encoding/json\<close>,
  \<^verbatim>\<open>encoding/base64\<close>, \<^verbatim>\<open>golang-jwt/jwt/v5\<close>) is not part of the repository. Those
  calls are parameters, collected in the record \<open>library\<close>; every theorem holds for all
  values of the parameters.
\<close>

subsection \<open>Data\<close>

text \<open>\<^verbatim>\<open>rsa.PublicKey\<close>: modulus (a \<^verbatim>\<open>*big.Int\<close>) and exponent (an \<^verbatim>\<open>int\<close>).\<close>

record rsa_PublicKey =
  pkN :: nat
  pkE :: int

text \<open>\<^verbatim>\<open>type JWK struct\<close> and \<^verbatim>\<open>type JWKSResponse struct\<close>.\<close>

record JWK =
  Kid :: string
  Kty :: string
  Alg :: string
  Use :: string
  jwkN :: string
  jwkE :: string

record JWKSResponse =
  Keys :: "JWK list"

text \<open>
  \<^verbatim>\<open>jwt.RegisteredClaims\<close> and \<^verbatim>\<open>type KeycloakClaims struct\<close>, which embeds it. A
  \<^verbatim>\<open>*jwt.NumericDate\<close> is a Unix time in seconds, absent when the pointer is nil.
\<close>

record RegisteredClaims =
  Issuer :: string
  Subject :: string
  Audience :: "string list"
  ExpiresAt :: "int option"
  NotBefore :: "int option"
  IssuedAt :: "int option"
  ID :: string

record Access =
  Roles :: "string list"

record KeycloakClaims = RegisteredClaims +
  Email :: string
  EmailVerified :: bool
  PreferredUsername :: string
  Name :: string
  GivenName :: string
  FamilyName :: string
  RealmAccess :: Access
  ResourceAccess :: "string \<rightharpoonup> Access"

text \<open>
  \<^verbatim>\<open>jwt.Token\<close>. \<open>Method\<close> is the dynamic type of the \<^verbatim>\<open>jwt.SigningMethod\<close> the parser
  found for the header's \<^verbatim>\<open>alg\<close> (with the algorithm's name); a header value is an
  \<^verbatim>\<open>interface{}\<close> decoded from JSON.
\<close>

datatype SigningMethod =
    SigningMethodRSA string
  | SigningMethodRSAPSS string
  | SigningMethodHMAC string
  | SigningMethodECDSA string
  | SigningMethodEd25519
  | SigningMethodNone

datatype header_value = JString string | JNumber int | JBool bool | JNull

record Token =
  Raw :: string
  Method :: SigningMethod
  Header :: "string \<rightharpoonup> header_value"
  Claims :: KeycloakClaims
  Valid :: bool

text \<open>\<^verbatim>\<open>http.Response\<close> (the fields the file can read) and \<^verbatim>\<open>http.Request\<close>.\<close>

record http_Response =
  StatusCode :: nat
  Body :: string

record http_Request =
  ReqHeader :: "string \<rightharpoonup> string list"

text \<open>
  \<^verbatim>\<open>type KeycloakAuth struct\<close>, without the lock. A \<open>process\<close> is the validator
  together with the number of HTTP GETs the process has issued so far: the identity
  provider's reply to a GET may differ from one request to the next.
\<close>

record KeycloakAuth =
  realm :: string
  serverURL :: string
  clientID :: string
  clientSecret :: string
  publicKeys :: "string \<rightharpoonup> rsa_PublicKey"

record process =
  ka :: KeycloakAuth
  requests :: nat

text \<open>Every \<^verbatim>\<open>fmt.Errorf\<close> of the file, and the error kinds of the token parser.\<close>

datatype error =
    FailedToFetchJWKS
  | FailedToDecodeJWKS
  | Base64CorruptInput
  | FailedToRefreshKeys error
  | KeyNotFound string
  | UnexpectedSigningMethod "header_value option"
  | KidNotFoundInHeader
  | ErrTokenMalformed
  | ErrTokenUnverifiable error
  | ErrTokenSignatureInvalid
  | ErrTokenInvalidClaims
  | FailedToParseToken error
  | InvalidToken
  | InvalidIssuer string string
  | InvalidAudience
  | AuthorizationHeaderNotFound
  | InvalidAuthorizationHeaderFormat

text \<open>
  The calls into other packages.
  \<^item> \<open>http_Get url n\<close>: the outcome of \<^verbatim>\<open>http.Get(url)\<close> when it is the \<open>n\<close>-th GET of the
    process; \<open>None\<close> is a non-nil \<^verbatim>\<open>err\<close> (no response was received).
  \<^item> \<open>json_Decode body\<close>: \<^verbatim>\<open>json.NewDecoder(body).Decode(&jwks)\<close>; \<open>None\<close> is an error.
  \<^item> \<open>base64_DecodeString s\<close>: \<^verbatim>\<open>base64.RawURLEncoding.DecodeString(s)\<close>.
  \<^item> \<open>jwt_ParseUnverified s\<close>: all that \<^verbatim>\<open>jwt.ParseWithClaims\<close> does with the token string
    before it calls the key function (splitting, decoding header and claims, looking the
    signing method up); \<open>None\<close> when it returns an error at that stage.
  \<^item> \<open>jwt_ParseError s\<close>: the error it returns at that stage (a malformed token, or an
    unverifiable one when the header's \<^verbatim>\<open>alg\<close> is missing or names no signing method).
  \<^item> \<open>jwt_Verify token key\<close>: whether the token's signing method accepts the token's
    signature under \<open>key\<close>.
  \<^item> \<open>jwt_Validate claims\<close>: whether the parser's default claims validator (the temporal
    claims against the current time) accepts the claims.
\<close>

record library =
  http_Get :: "string \<Rightarrow> nat \<Rightarrow> http_Response option"
  json_Decode :: "string \<Rightarrow> JWKSResponse option"
  base64_DecodeString :: "string \<Rightarrow> 8 word list option"
  jwt_ParseUnverified :: "string \<Rightarrow> Token option"
  jwt_ParseError :: "string \<Rightarrow> error"
  jwt_Verify :: "Token \<Rightarrow> rsa_PublicKey \<Rightarrow> bool"
  jwt_Validate :: "KeycloakClaims \<Rightarrow> bool"

subsection \<open>Refreshing the key cache\<close>

text \<open>\<^verbatim>\<open>new(big.Int).SetBytes(b)\<close>: the bytes as a big-endian unsigned number.\<close>

definition SetBytes :: "8 word list \<Rightarrow> nat" where
  "SetBytes bs = foldl (\<lambda>a b. a * 256 + unat b) 0 bs"

text \<open>\<^verbatim>\<open>int(e.Int64())\<close> for a non-negative \<^verbatim>\<open>*big.Int\<close>: the low 64 bits, read signed.\<close>

definition Int64 :: "nat \<Rightarrow> int" where
  "Int64 e = sint (word_of_nat e :: 64 word)"

definition parseRSAPublicKey :: "library \<Rightarrow> JWK \<Rightarrow> error + rsa_PublicKey" where
  "parseRSAPublicKey lib jwk =
     (case base64_DecodeString lib (jwkN jwk) of
        None \<Rightarrow> Inl Base64CorruptInput
      | Some nBytes \<Rightarrow>
          (case base64_DecodeString lib (jwkE jwk) of
             None \<Rightarrow> Inl Base64CorruptInput
           | Some eBytes \<Rightarrow>
               Inr \<lparr>pkN = SetBytes nBytes, pkE = Int64 (SetBytes eBytes)\<rparr>))"

text \<open>The loop \<^verbatim>\<open>for _, key := range jwks.Keys\<close> of \<^verbatim>\<open>refreshPublicKeys\<close>.\<close>

fun installKeys ::
  "library \<Rightarrow> JWK list \<Rightarrow> (string \<rightharpoonup> rsa_PublicKey) \<Rightarrow> (string \<rightharpoonup> rsa_PublicKey)" where
  "installKeys lib [] m = m"
| "installKeys lib (key # keys) m =
     (if Kty key = ''RSA'' \<and> Use key = ''sig'' then
        (case parseRSAPublicKey lib key of
           Inl err \<Rightarrow> installKeys lib keys m
         | Inr pubKey \<Rightarrow> installKeys lib keys (m(Kid key \<mapsto> pubKey)))
      else installKeys lib keys m)"

definition certsURL :: "KeycloakAuth \<Rightarrow> string" where
  "certsURL k = serverURL k @ ''/realms/'' @ realm k @ ''/protocol/openid-connect/certs''"

definition refreshPublicKeys :: "library \<Rightarrow> process \<Rightarrow> error option \<times> process" where
  "refreshPublicKeys lib p =
     (let p1 = p\<lparr>requests := Suc (requests p)\<rparr> in
      case http_Get lib (certsURL (ka p)) (requests p) of
        None \<Rightarrow> (Some FailedToFetchJWKS, p1)
      | Some resp \<Rightarrow>
          (case json_Decode lib (Body resp) of
             None \<Rightarrow> (Some FailedToDecodeJWKS, p1)
           | Some jwks \<Rightarrow>
               (None, p1\<lparr>ka := (ka p1)\<lparr>publicKeys :=
                                  installKeys lib (Keys jwks) (publicKeys (ka p1))\<rparr>\<rparr>)))"

subsection \<open>Looking a key up\<close>

definition getPublicKey :: "library \<Rightarrow> string \<Rightarrow> process \<Rightarrow> (error + rsa_PublicKey) \<times> process" where
  "getPublicKey lib kid p =
     (case publicKeys (ka p) kid of
        Some key \<Rightarrow> (Inr key, p)
      | None \<Rightarrow>
          (case refreshPublicKeys lib p of
             (Some err, p') \<Rightarrow> (Inl (FailedToRefreshKeys err), p')
           | (None, p') \<Rightarrow>
               (case publicKeys (ka p') kid of
                  None \<Rightarrow> (Inl (KeyNotFound kid), p')
                | Some key \<Rightarrow> (Inr key, p'))))"

subsection \<open>Validating a token\<close>

text \<open>
  The key function that \<^verbatim>\<open>ValidateToken\<close> hands to the parser. The type assertion
  \<^verbatim>\<open>token.Method.(*jwt.SigningMethodRSA)\<close> holds for that dynamic type only.
\<close>

definition keyFunc :: "library \<Rightarrow> Token \<Rightarrow> process \<Rightarrow> (error + rsa_PublicKey) \<times> process" where
  "keyFunc lib token p =
     (case Method token of
        SigningMethodRSA a \<Rightarrow>
          (case Header token ''kid'' of
             Some (JString kid) \<Rightarrow> getPublicKey lib kid p
           | _ \<Rightarrow> (Inl KidNotFoundInHeader, p))
      | _ \<Rightarrow> (Inl (UnexpectedSigningMethod (Header token ''alg'')), p))"

text \<open>
  \<^verbatim>\<open>jwt.ParseWithClaims\<close>, as far as its order of steps goes: parse, call the key
  function, verify the signature with the key it returned, validate the claims, and
  only then mark the token valid. Each step is a parameter of \<open>library\<close>.
\<close>

definition ParseWithClaims ::
  "library \<Rightarrow> string \<Rightarrow> (Token \<Rightarrow> process \<Rightarrow> (error + rsa_PublicKey) \<times> process)
     \<Rightarrow> process \<Rightarrow> (error + Token) \<times> process" where
  "ParseWithClaims lib tokenString kf p =
     (case jwt_ParseUnverified lib tokenString of
        None \<Rightarrow> (Inl (jwt_ParseError lib tokenString), p)
      | Some token \<Rightarrow>
          (case kf token p of
             (Inl err, p') \<Rightarrow> (Inl (ErrTokenUnverifiable err), p')
           | (Inr key, p') \<Rightarrow>
               if \<not> jwt_Verify lib token key then (Inl ErrTokenSignatureInvalid, p')
               else if \<not> jwt_Validate lib (Claims token) then (Inl ErrTokenInvalidClaims, p')
               else (Inr (token\<lparr>Valid := True\<rparr>), p')))"

text \<open>The loop of \<^verbatim>\<open>validateAudience\<close>.\<close>

fun validateAudience :: "KeycloakAuth \<Rightarrow> string list \<Rightarrow> bool" where
  "validateAudience k [] = False"
| "validateAudience k (aud # audience) =
     (if aud = clientID k \<or> aud = ''account'' then True else validateAudience k audience)"

definition expectedIssuer :: "KeycloakAuth \<Rightarrow> string" where
  "expectedIssuer k = serverURL k @ ''/realms/'' @ realm k"

text \<open>
  \<^verbatim>\<open>ValidateToken\<close>. The type assertion \<^verbatim>\<open>token.Claims.(*KeycloakClaims)\<close> cannot fail,
  since the parser fills the \<^verbatim>\<open>&KeycloakClaims{}\<close> it was given.
\<close>

definition ValidateToken :: "library \<Rightarrow> string \<Rightarrow> process \<Rightarrow> (error + KeycloakClaims) \<times> process" where
  "ValidateToken lib tokenString p =
     (case ParseWithClaims lib tokenString (keyFunc lib) p of
        (Inl err, p') \<Rightarrow> (Inl (FailedToParseToken err), p')
      | (Inr token, p') \<Rightarrow>
          if \<not> Valid token then (Inl InvalidToken, p')
          else
            let claims = Claims token in
            if Issuer claims \<noteq> expectedIssuer (ka p') then
              (Inl (InvalidIssuer (expectedIssuer (ka p')) (Issuer claims)), p')
            else if \<not> validateAudience (ka p') (Audience claims) then (Inl InvalidAudience, p')
            else (Inr claims, p'))"

subsection \<open>The bearer token of a request\<close>

text \<open>
  \<^verbatim>\<open>r.Header.Get(key)\<close>: the first value stored under the key, or the empty string.
  The key \<^verbatim>\<open>"Authorization"\<close> is in canonical form already.
\<close>

definition Header_Get :: "(string \<rightharpoonup> string list) \<Rightarrow> string \<Rightarrow> string" where
  "Header_Get h key = (case h key of None \<Rightarrow> [] | Some [] \<Rightarrow> [] | Some (v # vs) \<Rightarrow> v)"

text \<open>\<^verbatim>\<open>strings.Split(s, " ")\<close>: the pieces between the spaces, one more than spaces.\<close>

fun Split :: "string \<Rightarrow> string list" where
  "Split [] = [[]]"
| "Split (c # s) =
     (if c = CHR '' '' then [] # Split s
      else (case Split s of
              [] \<Rightarrow> [[c]]
            | part # parts \<Rightarrow> (c # part) # parts))"

definition ExtractBearerToken :: "http_Request \<Rightarrow> error + string" where
  "ExtractBearerToken r =
     (let authHeader = Header_Get (ReqHeader r) ''Authorization'' in
      if authHeader = [] then Inl AuthorizationHeaderNotFound
      else
        let parts = Split authHeader in
        if length parts \<noteq> 2 \<or> parts ! 0 \<noteq> ''Bearer'' then Inl InvalidAuthorizationHeaderFormat
        else Inr (parts ! 1))"

subsection \<open>Roles\<close>

text \<open>The loop \<^verbatim>\<open>for _, r := range roles { if r == role { return true } }\<close>.\<close>

fun rangeRoles :: "string list \<Rightarrow> string \<Rightarrow> bool" where
  "rangeRoles [] role = False"
| "rangeRoles (r # rs) role = (if r = role then True else rangeRoles rs role)"

definition HasRole :: "KeycloakAuth \<Rightarrow> KeycloakClaims \<Rightarrow> string \<Rightarrow> bool" where
  "HasRole k claims role =
     (if rangeRoles (Roles (RealmAccess claims)) role then True
      else (case ResourceAccess claims (clientID k) of
              Some clientAccess \<Rightarrow> rangeRoles (Roles clientAccess) role
            | None \<Rightarrow> False))"

subsection \<open>The validator's lifetime\<close>

text \<open>
  After \<^verbatim>\<open>NewKeycloakAuth\<close> the cache is touched by two kinds of events: a refresh
  started by the constructor or by the hourly ticker, and a request whose token is
  validated. A lifetime is a list of such events, run one after the other.
\<close>

datatype event = Tick | Request string

fun step :: "library \<Rightarrow> event \<Rightarrow> process \<Rightarrow> process" where
  "step lib Tick p = snd (refreshPublicKeys lib p)"
| "step lib (Request tokenString) p = snd (ValidateToken lib tokenString p)"

fun run :: "library \<Rightarrow> event list \<Rightarrow> process \<Rightarrow> process" where
  "run lib [] p = p"
| "run lib (e # es) p = run lib es (step lib e p)"

text \<open>
  The part of \<^verbatim>\<open>jwt.ParseWithClaims\<close> and \<^verbatim>\<open>ValidateToken\<close> that follows the key
  function, as a function of the key it returned (lemma \<open>ValidateToken_keyFunc\<close> below
  relates it to \<open>ValidateToken\<close>).
\<close>

definition checked :: "library \<Rightarrow> KeycloakAuth \<Rightarrow> Token \<Rightarrow> rsa_PublicKey \<Rightarrow> error + KeycloakClaims" where
  "checked lib k t key =
     (if \<not> jwt_Verify lib t key then Inl (FailedToParseToken ErrTokenSignatureInvalid)
      else if \<not> jwt_Validate lib (Claims t) then Inl (FailedToParseToken ErrTokenInvalidClaims)
      else if Issuer (Claims t) \<noteq> expectedIssuer k then
        Inl (InvalidIssuer (expectedIssuer k) (Issuer (Claims t)))
      else if \<not> validateAudience k (Audience (Claims t)) then Inl InvalidAudience
      else Inr (Claims t))"

subsection \<open>A concrete deployment\<close>

text \<open>
  The scenario of the specification: client \<^verbatim>\<open>payforward-app\<close>, a key \<^verbatim>\<open>k1\<close> in the
  cache, and a provider whose key set lists \<^verbatim>\<open>k2\<close> (and an entry \<^verbatim>\<open>k3\<close> whose modulus
  is not base64url) on the first GET and is unreachable afterwards. The current time
  is 1000.
\<close>

definition key1 :: rsa_PublicKey where
  "key1 = \<lparr>pkN = 2773, pkE = 65537\<rparr>"

definition key2 :: rsa_PublicKey where
  "key2 = \<lparr>pkN = 3233, pkE = 65537\<rparr>"

definition jwk2 :: JWK where
  "jwk2 = \<lparr>Kid = ''k2'', Kty = ''RSA'', Alg = ''RS256'', Use = ''sig'',
            jwkN = ''DKE'', jwkE = ''AQAB''\<rparr>"

definition jwk3 :: JWK where
  "jwk3 = \<lparr>Kid = ''k3'', Kty = ''RSA'', Alg = ''RS256'', Use = ''sig'',
            jwkN = ''D*KE'', jwkE = ''AQAB''\<rparr>"

definition demo_ka :: KeycloakAuth where
  "demo_ka = \<lparr>realm = ''payforward'', serverURL = ''https://id.example'',
               clientID = ''payforward-app'', clientSecret = ''s3cret'',
               publicKeys = [''k1'' \<mapsto> key1]\<rparr>"

definition demo_process :: process where
  "demo_process = \<lparr>ka = demo_ka, requests = 0\<rparr>"

definition demo_claims :: "string \<Rightarrow> string list \<Rightarrow> KeycloakClaims" where
  "demo_claims iss aud =
     \<lparr>Issuer = iss, Subject = ''user-1'', Audience = aud, ExpiresAt = Some 4600,
      NotBefore = Some 1000, IssuedAt = Some 1000, ID = ''jti-1'',
      Email = ''ann@example.org'', EmailVerified = True, PreferredUsername = ''ann'',
      Name = ''Ann Lee'', GivenName = ''Ann'', FamilyName = ''Lee'',
      RealmAccess = \<lparr>Roles = [''user'']\<rparr>,
      ResourceAccess = [''payforward-app'' \<mapsto> \<lparr>Roles = [''editor'']\<rparr>,
                        ''other-app'' \<mapsto> \<lparr>Roles = [''admin'']\<rparr>]\<rparr>"

definition demo_token :: "SigningMethod \<Rightarrow> string \<Rightarrow> string \<Rightarrow> KeycloakClaims \<Rightarrow> Token" where
  "demo_token m alg kid claims =
     \<lparr>Raw = alg @ ''.'' @ kid, Method = m,
      Header = [''alg'' \<mapsto> JString alg, ''kid'' \<mapsto> JString kid, ''typ'' \<mapsto> JString ''JWT''],
      Claims = claims, Valid = False\<rparr>"

definition demo_issuer :: string where
  "demo_issuer = ''https://id.example/realms/payforward''"

definition demo_parse :: "string \<Rightarrow> Token option" where
  "demo_parse s =
     (if s = ''rs256.k1'' then
        Some (demo_token (SigningMethodRSA ''RS256'') ''RS256'' ''k1''
                (demo_claims demo_issuer [''payforward-app'']))
      else if s = ''rs256.k2'' then
        Some (demo_token (SigningMethodRSA ''RS256'') ''RS256'' ''k2''
                (demo_claims demo_issuer [''payforward-app'']))
      else if s = ''hs256.k1'' then
        Some (demo_token (SigningMethodHMAC ''HS256'') ''HS256'' ''k1''
                (demo_claims demo_issuer [''payforward-app'']))
      else if s = ''hs256.k2'' then
        Some (demo_token (SigningMethodHMAC ''HS256'') ''HS256'' ''k2''
                (demo_claims demo_issuer [''payforward-app'']))
      else if s = ''ps256.k1'' then
        Some (demo_token (SigningMethodRSAPSS ''PS256'') ''PS256'' ''k1''
                (demo_claims demo_issuer [''payforward-app'']))
      else if s = ''rs256.k1.other-app'' then
        Some (demo_token (SigningMethodRSA ''RS256'') ''RS256'' ''k1''
                (demo_claims demo_issuer [''other-app'']))
      else if s = ''rs256.k1.slash'' then
        Some (demo_token (SigningMethodRSA ''RS256'') ''RS256'' ''k1''
                (demo_claims (demo_issuer @ ''/'') [''payforward-app'']))
      else None)"

definition demo_lib :: library where
  "demo_lib =
     \<lparr>http_Get = (\<lambda>url n.
        if url = ''https://id.example/realms/payforward/protocol/openid-connect/certs'' \<and> n = 0
        then Some \<lparr>StatusCode = 200, Body = ''jwks''\<rparr> else None),
      json_Decode = (\<lambda>body.
        if body = ''jwks'' then Some \<lparr>Keys = [jwk3, jwk2]\<rparr>
        else if body = ''{}'' then Some \<lparr>Keys = []\<rparr> else None),
      base64_DecodeString = (\<lambda>s.
        if s = ''AQAB'' then Some [1, 0, 1] else if s = ''DKE'' then Some [12, 161] else None),
      jwt_ParseUnverified = demo_parse,
      jwt_ParseError = (\<lambda>s. ErrTokenMalformed),
      jwt_Verify = (\<lambda>t key.
        Header t ''kid'' = Some (JString ''k1'') \<and> key = key1
        \<or> Header t ''kid'' = Some (JString ''k2'') \<and> key = key2),
      jwt_Validate = (\<lambda>c.
        (case ExpiresAt c of None \<Rightarrow> True | Some e \<Rightarrow> 1000 < e)
        \<and> (case NotBefore c of None \<Rightarrow> True | Some n \<Rightarrow> n \<le> 1000))\<rparr>"

text \<open>The same deployment with a provider that cannot be reached at all.\<close>

definition offline_lib :: library where
  "offline_lib = demo_lib\<lparr>http_Get := (\<lambda>url n. None)\<rparr>"

text \<open>
  The same deployment with a provider that answers every GET with status 500 and the
  JSON document \<^verbatim>\<open>{}\<close>, which decodes to a \<^verbatim>\<open>JWKSResponse\<close> without keys.
\<close>

definition failing_lib :: library where
  "failing_lib = demo_lib\<lparr>http_Get := (\<lambda>url n. Some \<lparr>StatusCode = 500, Body = ''{}''\<rparr>)\<rparr>"

text \<open>A request with two \<^verbatim>\<open>Authorization\<close> headers.\<close>

definition two_headers :: http_Request where
  "two_headers = \<lparr>ReqHeader = [''Authorization'' \<mapsto> [''Bearer abc123'', ''Bearer def456'']]\<rparr>"

section \<open>Properties\<close>

lemmas demo_defs = demo_lib_def demo_parse_def demo_token_def demo_claims_def demo_issuer_def
  demo_process_def demo_ka_def key1_def key2_def jwk2_def jwk3_def offline_lib_def
  failing_lib_def

lemmas code_defs = ValidateToken_def ParseWithClaims_def keyFunc_def getPublicKey_def
  expectedIssuer_def refreshPublicKeys_def certsURL_def parseRSAPublicKey_def SetBytes_def
  Int64_def

subsection \<open>Splitting at spaces\<close>

lemma Split_not_Nil: "Split s \<noteq> []"
  by (induction s) (auto split: list.splits)

lemma Split_no_space: "CHR '' '' \<notin> set s \<Longrightarrow> Split s = [s]"
  by (induction s) auto

lemma Split_append_space:
  "CHR '' '' \<notin> set a \<Longrightarrow> Split (a @ CHR '' '' # b) = a # Split b"
  by (induction a) auto

lemma Split_single: "Split s = [a] \<Longrightarrow> s = a \<and> CHR '' '' \<notin> set a"
proof (induction s arbitrary: a)
  case Nil
  then show ?case by simp
next
  case (Cons c s)
  then show ?case
    by (auto split: if_splits list.splits simp: Split_not_Nil)
qed

lemma Split_two:
  "Split s = [a, b] \<Longrightarrow> s = a @ CHR '' '' # b \<and> CHR '' '' \<notin> set a \<and> CHR '' '' \<notin> set b"
proof (induction s arbitrary: a)
  case Nil
  then show ?case by simp
next
  case (Cons c s)
  show ?case
  proof (cases "c = CHR '' ''")
    case True
    with Cons.prems have "a = []" "Split s = [b]" by auto
    with True Split_single[of s b] show ?thesis by auto
  next
    case False
    with Cons.prems obtain a' where a: "a = c # a'" and s: "Split s = [a', b]"
      by (auto split: list.splits)
    from Cons.IH[OF s] a False show ?thesis by auto
  qed
qed

subsection \<open>The membership loops\<close>

lemma rangeRoles_iff: "rangeRoles rs role \<longleftrightarrow> role \<in> set rs"
  by (induction rs) auto

subsection \<open>Refresh, lookup and validation\<close>

lemma validateAudience_iff:
  "validateAudience k audience \<longleftrightarrow> (\<exists>aud \<in> set audience. aud = clientID k \<or> aud = ''account'')"
  by (induction audience) auto

lemma installKeys_dom: "kid \<in> dom m \<Longrightarrow> kid \<in> dom (installKeys lib keys m)"
  by (induction keys arbitrary: m) (auto split: sum.splits)

lemma installKeys_keeps:
  "m kid = Some key \<Longrightarrow> \<exists>key'. installKeys lib keys m kid = Some key'"
  using installKeys_dom[of kid m lib keys] by auto

lemma installKeys_untouched:
  "kid \<notin> Kid ` set keys \<Longrightarrow> installKeys lib keys m kid = m kid"
  by (induction keys arbitrary: m) (auto split: sum.splits)

lemma installKeys_skip:
  "parseRSAPublicKey lib key = Inl err \<Longrightarrow> installKeys lib (key # keys) m = installKeys lib keys m"
  by simp

lemma refresh_requests: "requests (snd (refreshPublicKeys lib p)) = Suc (requests p)"
  by (simp add: refreshPublicKeys_def Let_def split: option.splits)

lemma refresh_error_keeps_cache:
  "fst (refreshPublicKeys lib p) = Some err \<Longrightarrow> ka (snd (refreshPublicKeys lib p)) = ka p"
  by (simp add: refreshPublicKeys_def Let_def split: option.splits)

lemma refresh_ka:
  "\<exists>m. ka (snd (refreshPublicKeys lib p)) = (ka p)\<lparr>publicKeys := m\<rparr>"
proof (cases "fst (refreshPublicKeys lib p)")
  case None
  then show ?thesis
    by (auto simp: refreshPublicKeys_def Let_def split: option.splits)
next
  case (Some err)
  from refresh_error_keeps_cache[OF this] have "ka (snd (refreshPublicKeys lib p)) = (ka p)\<lparr>publicKeys := publicKeys (ka p)\<rparr>"
    by simp
  then show ?thesis by blast
qed

lemma refresh_keeps:
  "publicKeys (ka p) kid = Some key \<Longrightarrow> \<exists>key'. publicKeys (ka (snd (refreshPublicKeys lib p))) kid = Some key'"
  by (auto simp: refreshPublicKeys_def Let_def installKeys_keeps split: option.splits)

lemma refresh_untouched:
  assumes "\<And>resp jwks. http_Get lib (certsURL (ka p)) (requests p) = Some resp \<Longrightarrow>
             json_Decode lib (Body resp) = Some jwks \<Longrightarrow> kid \<notin> Kid ` set (Keys jwks)"
  shows "publicKeys (ka (snd (refreshPublicKeys lib p))) kid = publicKeys (ka p) kid"
  using assms
  by (auto simp: refreshPublicKeys_def Let_def installKeys_untouched split: option.splits)

lemma getPublicKey_cached:
  "publicKeys (ka p) kid = Some key \<Longrightarrow> getPublicKey lib kid p = (Inr key, p)"
  by (simp add: getPublicKey_def)

lemma getPublicKey_missing:
  "publicKeys (ka p) kid = None \<Longrightarrow>
   getPublicKey lib kid p =
     (case fst (refreshPublicKeys lib p) of
        Some err \<Rightarrow> Inl (FailedToRefreshKeys err)
      | None \<Rightarrow> (case publicKeys (ka (snd (refreshPublicKeys lib p))) kid of
                   None \<Rightarrow> Inl (KeyNotFound kid)
                 | Some key \<Rightarrow> Inr key),
      snd (refreshPublicKeys lib p))"
  by (cases "refreshPublicKeys lib p") (auto simp: getPublicKey_def split: option.splits)

lemma getPublicKey_state:
  "snd (getPublicKey lib kid p) = p \<or> snd (getPublicKey lib kid p) = snd (refreshPublicKeys lib p)"
  by (cases "publicKeys (ka p) kid") (simp_all add: getPublicKey_missing getPublicKey_cached)

lemma keyFunc_state:
  "snd (keyFunc lib token p) = p \<or> snd (keyFunc lib token p) = snd (refreshPublicKeys lib p)"
  using getPublicKey_state[of lib _ p]
  by (auto simp: keyFunc_def split: SigningMethod.splits option.splits header_value.splits)

lemma ParseWithClaims_state:
  "snd (ParseWithClaims lib s (keyFunc lib) p) = p
   \<or> snd (ParseWithClaims lib s (keyFunc lib) p) = snd (refreshPublicKeys lib p)"
proof (cases "jwt_ParseUnverified lib s")
  case None
  then show ?thesis by (simp add: ParseWithClaims_def)
next
  case (Some token)
  have "snd (ParseWithClaims lib s (keyFunc lib) p) = snd (keyFunc lib token p)"
    using Some by (cases "keyFunc lib token p") (auto simp: ParseWithClaims_def split: sum.splits)
  with keyFunc_state[of lib token p] show ?thesis by simp
qed

lemma ValidateToken_snd:
  "snd (ValidateToken lib s p) = snd (ParseWithClaims lib s (keyFunc lib) p)"
  by (cases "ParseWithClaims lib s (keyFunc lib) p")
     (auto simp: ValidateToken_def Let_def split: sum.splits)

lemma ValidateToken_state:
  "snd (ValidateToken lib s p) = p \<or> snd (ValidateToken lib s p) = snd (refreshPublicKeys lib p)"
  using ParseWithClaims_state[of lib s p] by (simp add: ValidateToken_snd)

lemma ValidateToken_keyFunc:
  assumes "jwt_ParseUnverified lib s = Some t"
  shows "ValidateToken lib s p =
     (case keyFunc lib t p of
        (Inl err, p') \<Rightarrow> (Inl (FailedToParseToken (ErrTokenUnverifiable err)), p')
      | (Inr key, p') \<Rightarrow> (checked lib (ka p') t key, p'))"
  using assms
  by (cases "keyFunc lib t p")
     (auto simp: ValidateToken_def ParseWithClaims_def checked_def Let_def split: sum.splits)

lemma expectedIssuer_upd [simp]: "expectedIssuer (k\<lparr>publicKeys := m\<rparr>) = expectedIssuer k"
  by (simp add: expectedIssuer_def)

lemma certsURL_upd [simp]: "certsURL (k\<lparr>publicKeys := m\<rparr>) = certsURL k"
  by (simp add: certsURL_def)

lemma checked_upd [simp]: "checked lib (k\<lparr>publicKeys := m\<rparr>) t key = checked lib k t key"
  by (simp add: checked_def validateAudience_iff)

lemma checked_refresh [simp]:
  "checked lib (ka (snd (refreshPublicKeys lib p))) t key = checked lib (ka p) t key"
proof -
  obtain m where "ka (snd (refreshPublicKeys lib p)) = (ka p)\<lparr>publicKeys := m\<rparr>"
    using refresh_ka by blast
  then show ?thesis by simp
qed

lemma ValidateToken_cached:
  assumes "jwt_ParseUnverified lib s = Some t" "Method t = SigningMethodRSA a"
    "Header t ''kid'' = Some (JString kid)" "publicKeys (ka p) kid = Some key"
  shows "ValidateToken lib s p = (checked lib (ka p) t key, p)"
  using assms by (simp add: ValidateToken_keyFunc keyFunc_def getPublicKey_cached)

lemma ValidateToken_missing:
  assumes "jwt_ParseUnverified lib s = Some t" "Method t = SigningMethodRSA a"
    "Header t ''kid'' = Some (JString kid)" "publicKeys (ka p) kid = None"
  shows "ValidateToken lib s p =
     (case fst (refreshPublicKeys lib p) of
        Some err \<Rightarrow> Inl (FailedToParseToken (ErrTokenUnverifiable (FailedToRefreshKeys err)))
      | None \<Rightarrow> (case publicKeys (ka (snd (refreshPublicKeys lib p))) kid of
                   None \<Rightarrow> Inl (FailedToParseToken (ErrTokenUnverifiable (KeyNotFound kid)))
                 | Some key \<Rightarrow> checked lib (ka p) t key),
      snd (refreshPublicKeys lib p))"
  using assms
  by (auto simp: ValidateToken_keyFunc keyFunc_def getPublicKey_missing split: option.splits)

lemma ValidateToken_not_RSA:
  assumes "jwt_ParseUnverified lib s = Some t" "\<forall>a. Method t \<noteq> SigningMethodRSA a"
  shows "ValidateToken lib s p =
     (Inl (FailedToParseToken (ErrTokenUnverifiable (UnexpectedSigningMethod (Header t ''alg'')))), p)"
  using assms
  by (cases "Method t") (auto simp: ValidateToken_keyFunc keyFunc_def)

lemma keyFunc_ka: "\<exists>m. ka (snd (keyFunc lib t p)) = (ka p)\<lparr>publicKeys := m\<rparr>"
proof -
  have "ka p = (ka p)\<lparr>publicKeys := publicKeys (ka p)\<rparr>" by simp
  with keyFunc_state[of lib t p] refresh_ka[of lib p] show ?thesis by metis
qed

lemma ValidateToken_result:
  assumes "jwt_ParseUnverified lib s = Some t"
  shows "fst (ValidateToken lib s p) =
     (case fst (keyFunc lib t p) of
        Inl err \<Rightarrow> Inl (FailedToParseToken (ErrTokenUnverifiable err))
      | Inr key \<Rightarrow> checked lib (ka p) t key)"
proof -
  obtain m where m: "ka (snd (keyFunc lib t p)) = (ka p)\<lparr>publicKeys := m\<rparr>"
    using keyFunc_ka by blast
  show ?thesis
    using m by (cases "keyFunc lib t p") (auto simp: ValidateToken_keyFunc[OF assms] split: sum.splits)
qed

lemma step_ka: "\<exists>m. ka (step lib e p) = (ka p)\<lparr>publicKeys := m\<rparr>"
proof (cases e)
  case Tick
  then show ?thesis using refresh_ka[of lib p] by simp
next
  case (Request s)
  have "ka p = (ka p)\<lparr>publicKeys := publicKeys (ka p)\<rparr>" by simp
  with Request ValidateToken_state[of lib s p] refresh_ka[of lib p] show ?thesis
    by (metis step.simps(2))
qed

lemma step_requests: "requests p \<le> requests (step lib e p)"
proof (cases e)
  case Tick
  then show ?thesis by (simp add: refresh_requests)
next
  case (Request s)
  with ValidateToken_state[of lib s p] show ?thesis
    by (auto simp: refresh_requests)
qed

lemma step_keeps:
  assumes "publicKeys (ka p) kid = Some key"
  shows "\<exists>key'. publicKeys (ka (step lib e p)) kid = Some key'"
proof (cases e)
  case Tick
  then show ?thesis using refresh_keeps[OF assms] by simp
next
  case (Request s)
  with ValidateToken_state[of lib s p] refresh_keeps[OF assms, of lib] assms show ?thesis
    by auto
qed

lemma step_untouched:
  assumes "\<And>resp jwks. http_Get lib (certsURL (ka p)) (requests p) = Some resp \<Longrightarrow>
             json_Decode lib (Body resp) = Some jwks \<Longrightarrow> kid \<notin> Kid ` set (Keys jwks)"
  shows "publicKeys (ka (step lib e p)) kid = publicKeys (ka p) kid"
proof (cases e)
  case Tick
  then show ?thesis using refresh_untouched[of lib p kid] assms by simp
next
  case (Request s)
  with ValidateToken_state[of lib s p] refresh_untouched[of lib p kid] assms show ?thesis
    by auto
qed

lemma run_ka: "\<exists>m. ka (run lib es p) = (ka p)\<lparr>publicKeys := m\<rparr>"
proof (induction es arbitrary: p)
  case Nil
  have "ka p = (ka p)\<lparr>publicKeys := publicKeys (ka p)\<rparr>" by simp
  then show ?case by (metis run.simps(1))
next
  case (Cons e es)
  obtain m where m: "ka (step lib e p) = (ka p)\<lparr>publicKeys := m\<rparr>" using step_ka by blast
  obtain m' where "ka (run lib es (step lib e p)) = (ka (step lib e p))\<lparr>publicKeys := m'\<rparr>"
    using Cons.IH by blast
  with m have "ka (run lib (e # es) p) = (ka p)\<lparr>publicKeys := m'\<rparr>" by simp
  then show ?case by blast
qed

lemma run_keeps:
  "publicKeys (ka p) kid = Some key \<Longrightarrow> \<exists>key'. publicKeys (ka (run lib es p)) kid = Some key'"
proof (induction es arbitrary: p key)
  case Nil
  then show ?case by simp
next
  case (Cons e es)
  from step_keeps[OF Cons.prems] obtain k' where "publicKeys (ka (step lib e p)) kid = Some k'"
    by blast
  from Cons.IH[OF this] show ?case by simp
qed

lemma run_untouched:
  assumes "\<And>n resp jwks. requests p \<le> n \<Longrightarrow> http_Get lib (certsURL (ka p)) n = Some resp \<Longrightarrow>
             json_Decode lib (Body resp) = Some jwks \<Longrightarrow> kid \<notin> Kid ` set (Keys jwks)"
  shows "publicKeys (ka (run lib es p)) kid = publicKeys (ka p) kid"
  using assms
proof (induction es arbitrary: p)
  case Nil
  then show ?case by simp
next
  case (Cons e es)
  obtain m where m: "ka (step lib e p) = (ka p)\<lparr>publicKeys := m\<rparr>" using step_ka by blast
  have le: "requests p \<le> requests (step lib e p)" by (rule step_requests)
  have "publicKeys (ka (run lib es (step lib e p))) kid = publicKeys (ka (step lib e p)) kid"
  proof (rule Cons.IH)
    fix n resp jwks
    assume "requests (step lib e p) \<le> n"
      and "http_Get lib (certsURL (ka (step lib e p))) n = Some resp"
      and "json_Decode lib (Body resp) = Some jwks"
    with le m show "kid \<notin> Kid ` set (Keys jwks)"
      using Cons.prems[of n resp jwks] by simp
  qed
  moreover have "publicKeys (ka (step lib e p)) kid = publicKeys (ka p) kid"
    using Cons.prems[of "requests p"] by (intro step_untouched) auto
  ultimately show ?case by simp
qed

section \<open>The claims\<close>

subsection \<open>C1: a key identifier that is not in the cache\<close>

text \<open>
  C1, as the code has it. Take a token that the parser accepts, whose signing method
  is of type \<^verbatim>\<open>*jwt.SigningMethodRSA\<close> and whose header has a string \<^verbatim>\<open>kid\<close> that is
  not in the cache. Then \<open>ValidateToken\<close> runs \<open>refreshPublicKeys\<close> exactly once: the
  process it leaves behind is the one that a single refresh leaves behind, with one more
  GET issued. If that refresh returns an error, validation fails with the refresh error
  and the lookup is not repeated. If the refresh returns no error and the identifier is
  still missing, validation fails with the key-not-found error. If the refresh has
  installed the identifier, the signature is verified with the new key, and the token is
  accepted when signature, claims validation, issuer and audience all pass.
\<close>

theorem unknown_kid_one_refresh:
  assumes "jwt_ParseUnverified lib s = Some t"
    and "Method t = SigningMethodRSA a"
    and "Header t ''kid'' = Some (JString kid)"
    and "publicKeys (ka p) kid = None"
  shows "snd (ValidateToken lib s p) = snd (refreshPublicKeys lib p)
     \<and> requests (snd (ValidateToken lib s p)) = Suc (requests p)
     \<and> (case fst (refreshPublicKeys lib p) of
          Some err \<Rightarrow>
            fst (ValidateToken lib s p) =
              Inl (FailedToParseToken (ErrTokenUnverifiable (FailedToRefreshKeys err)))
        | None \<Rightarrow>
            (case publicKeys (ka (snd (refreshPublicKeys lib p))) kid of
               None \<Rightarrow>
                 fst (ValidateToken lib s p) =
                   Inl (FailedToParseToken (ErrTokenUnverifiable (KeyNotFound kid)))
             | Some key \<Rightarrow>
                 (\<not> jwt_Verify lib t key \<longrightarrow>
                    fst (ValidateToken lib s p) = Inl (FailedToParseToken ErrTokenSignatureInvalid))
                 \<and> (jwt_Verify lib t key \<and> jwt_Validate lib (Claims t)
                      \<and> Issuer (Claims t) = expectedIssuer (ka p)
                      \<and> validateAudience (ka p) (Audience (Claims t)) \<longrightarrow>
                    fst (ValidateToken lib s p) = Inr (Claims t))))"
  by (simp add: ValidateToken_missing[OF assms] refresh_requests checked_def
           split: option.splits)

text \<open>
  The first GET of the concrete deployment installs \<^verbatim>\<open>k2\<close>; a token signed with it is
  accepted after that one refresh.
\<close>

theorem unknown_kid_one_refresh_witness:
  "jwt_ParseUnverified demo_lib ''rs256.k2''
     = Some (demo_token (SigningMethodRSA ''RS256'') ''RS256'' ''k2''
               (demo_claims demo_issuer [''payforward-app'']))
   \<and> publicKeys (ka demo_process) ''k2'' = None
   \<and> requests (snd (ValidateToken demo_lib ''rs256.k2'' demo_process)) = 1
   \<and> publicKeys (ka (snd (ValidateToken demo_lib ''rs256.k2'' demo_process))) ''k2'' = Some key2
   \<and> fst (ValidateToken demo_lib ''rs256.k2'' demo_process)
       = Inr (demo_claims demo_issuer [''payforward-app''])"
proof -
  let ?t = "demo_token (SigningMethodRSA ''RS256'') ''RS256'' ''k2''
               (demo_claims demo_issuer [''payforward-app''])"
  have h1: "jwt_ParseUnverified demo_lib ''rs256.k2'' = Some ?t"
    by (simp add: demo_defs)
  have h2: "Method ?t = SigningMethodRSA ''RS256''" by (simp add: demo_defs)
  have h3: "Header ?t ''kid'' = Some (JString ''k2'')" by (simp add: demo_defs)
  have h4: "publicKeys (ka demo_process) ''k2'' = None" by (simp add: demo_defs)
  have r: "refreshPublicKeys demo_lib demo_process =
             (None, \<lparr>ka = demo_ka\<lparr>publicKeys := [''k1'' \<mapsto> key1, ''k2'' \<mapsto> key2]\<rparr>, requests = 1\<rparr>)"
    by (simp add: code_defs demo_defs)
  have v: "jwt_Verify demo_lib ?t key2" "jwt_Validate demo_lib (Claims ?t)"
    "Issuer (Claims ?t) = expectedIssuer (ka demo_process)"
    "validateAudience (ka demo_process) (Audience (Claims ?t))"
    "Claims ?t = demo_claims demo_issuer [''payforward-app'']"
    by (simp_all add: demo_defs expectedIssuer_def)
  from unknown_kid_one_refresh[OF h1 h2 h3 h4] h1 h4 r v show ?thesis
    by simp
qed

text \<open>
  Where the statement of the specification fails. With the provider unreachable, the
  identifier \<^verbatim>\<open>k2\<close> is still missing after the one refresh, yet the error is the
  refresh failure, not the key-not-found error. And a token with an HMAC method and the
  missing identifier \<^verbatim>\<open>k2\<close> causes no refresh at all.
\<close>

theorem refresh_failure_counterexample:
  "jwt_ParseUnverified offline_lib ''rs256.k2''
     = Some (demo_token (SigningMethodRSA ''RS256'') ''RS256'' ''k2''
               (demo_claims demo_issuer [''payforward-app'']))
   \<and> publicKeys (ka demo_process) ''k2'' = None
   \<and> ValidateToken offline_lib ''rs256.k2'' demo_process
       = (Inl (FailedToParseToken (ErrTokenUnverifiable (FailedToRefreshKeys FailedToFetchJWKS))),
          demo_process\<lparr>requests := 1\<rparr>)
   \<and> publicKeys (ka (snd (ValidateToken offline_lib ''rs256.k2'' demo_process))) ''k2'' = None
   \<and> fst (ValidateToken offline_lib ''rs256.k2'' demo_process)
       \<noteq> Inl (FailedToParseToken (ErrTokenUnverifiable (KeyNotFound ''k2'')))
   \<and> jwt_ParseUnverified demo_lib ''hs256.k2''
     = Some (demo_token (SigningMethodHMAC ''HS256'') ''HS256'' ''k2''
               (demo_claims demo_issuer [''payforward-app'']))
   \<and> requests (snd (ValidateToken demo_lib ''hs256.k2'' demo_process)) = requests demo_process"
  by (simp add: code_defs demo_defs)

subsection \<open>C2: the bearer token of a request\<close>

text \<open>
  C2, as the code has it. \<open>ExtractBearerToken\<close> returns a token exactly when the first
  value of the \<^verbatim>\<open>Authorization\<close> header is \<^verbatim>\<open>Bearer\<close>, one space, and a token without
  a space in it; further values of the header are not looked at. On every other request
  it returns an error.
\<close>

theorem ExtractBearerToken_first_header:
  "(ExtractBearerToken r = Inr tok \<longleftrightarrow>
     (\<exists>rest. ReqHeader r ''Authorization'' = Some ((''Bearer '' @ tok) # rest))
     \<and> CHR '' '' \<notin> set tok)
   \<and> ((\<exists>err. ExtractBearerToken r = Inl err) \<longleftrightarrow>
        \<not> (\<exists>tok' rest. ReqHeader r ''Authorization'' = Some ((''Bearer '' @ tok') # rest)
              \<and> CHR '' '' \<notin> set tok'))"
proof -
  have main: "ExtractBearerToken r = Inr x \<longleftrightarrow>
     (\<exists>rest. ReqHeader r ''Authorization'' = Some ((''Bearer '' @ x) # rest))
     \<and> CHR '' '' \<notin> set x" for x
  proof
    assume ok: "ExtractBearerToken r = Inr x"
    let ?h = "Header_Get (ReqHeader r) ''Authorization''"
    from ok have len: "length (Split ?h) = 2"
      and p0: "Split ?h ! 0 = ''Bearer''" and p1: "Split ?h ! 1 = x"
      by (auto simp: ExtractBearerToken_def Let_def split: if_splits)
    from len obtain a b where ab: "Split ?h = [a, b]"
      by (cases "Split ?h"; cases "tl (Split ?h)") auto
    with p0 p1 have "Split ?h = [''Bearer'', x]" by simp
    from Split_two[OF this] have h: "?h = ''Bearer '' @ x" and ns: "CHR '' '' \<notin> set x"
      by auto
    from h obtain rest where "ReqHeader r ''Authorization'' = Some ((''Bearer '' @ x) # rest)"
      by (auto simp: Header_Get_def split: option.splits list.splits)
    with ns show "(\<exists>rest. ReqHeader r ''Authorization'' = Some ((''Bearer '' @ x) # rest))
       \<and> CHR '' '' \<notin> set x" by blast
  next
    assume "(\<exists>rest. ReqHeader r ''Authorization'' = Some ((''Bearer '' @ x) # rest))
       \<and> CHR '' '' \<notin> set x"
    then obtain rest where h: "ReqHeader r ''Authorization'' = Some ((''Bearer '' @ x) # rest)"
      and ns: "CHR '' '' \<notin> set x" by blast
    have "Split (''Bearer'' @ CHR '' '' # x) = ''Bearer'' # Split x"
      by (rule Split_append_space) simp
    with ns have "Split (''Bearer '' @ x) = [''Bearer'', x]"
      by (simp add: Split_no_space)
    with h show "ExtractBearerToken r = Inr x"
      by (simp add: ExtractBearerToken_def Header_Get_def Let_def)
  qed
  have "(\<exists>err. ExtractBearerToken r = Inl err) \<longleftrightarrow> \<not> (\<exists>x. ExtractBearerToken r = Inr x)"
    by (cases "ExtractBearerToken r") auto
  with main show ?thesis by simp
qed

text \<open>
  One well-formed header is accepted; a wrong scheme, a scheme in lower case, two
  tokens and a missing header are errors.
\<close>

theorem ExtractBearerToken_first_header_witness:
  "ExtractBearerToken \<lparr>ReqHeader = [''Authorization'' \<mapsto> [''Bearer abc123'']]\<rparr> = Inr ''abc123''
   \<and> (\<exists>err. ExtractBearerToken \<lparr>ReqHeader = [''Authorization'' \<mapsto> [''Token abc123'']]\<rparr> = Inl err)
   \<and> (\<exists>err. ExtractBearerToken \<lparr>ReqHeader = [''Authorization'' \<mapsto> [''bearer abc123'']]\<rparr> = Inl err)
   \<and> (\<exists>err. ExtractBearerToken \<lparr>ReqHeader = [''Authorization'' \<mapsto> [''Bearer abc 123'']]\<rparr> = Inl err)
   \<and> (\<exists>err. ExtractBearerToken \<lparr>ReqHeader = Map.empty\<rparr> = Inl err)"
  using ExtractBearerToken_first_header[of "\<lparr>ReqHeader = [''Authorization'' \<mapsto> [''Bearer abc123'']]\<rparr>" "''abc123''"]
    ExtractBearerToken_first_header[of "\<lparr>ReqHeader = [''Authorization'' \<mapsto> [''Token abc123'']]\<rparr>" "''abc123''"]
    ExtractBearerToken_first_header[of "\<lparr>ReqHeader = [''Authorization'' \<mapsto> [''bearer abc123'']]\<rparr>" "''abc123''"]
    ExtractBearerToken_first_header[of "\<lparr>ReqHeader = [''Authorization'' \<mapsto> [''Bearer abc 123'']]\<rparr>" "''abc123''"]
    ExtractBearerToken_first_header[of "\<lparr>ReqHeader = Map.empty\<rparr>" "''abc123''"]
  by (simp add: ExtractBearerToken_def Header_Get_def)

text \<open>
  Where the statement of the specification fails: a request with two
  \<^verbatim>\<open>Authorization\<close> headers is accepted, with the token of the first.
\<close>

theorem two_headers_counterexample:
  "ReqHeader two_headers ''Authorization'' = Some [''Bearer abc123'', ''Bearer def456'']
   \<and> ExtractBearerToken two_headers = Inr ''abc123''"
  by (simp add: ExtractBearerToken_def Header_Get_def two_headers_def)

subsection \<open>C3: a refresh that fails\<close>

text \<open>
  C3 says that a refresh whose fetch or decoding fails, a reply with a status other than
  200 included, returns an error and leaves the cache as it was, and that an entry that
  does not parse is skipped. The code does so for a failed GET and for a body that does
  not decode (lemma \<open>refresh_error_keeps_cache\<close>), and it skips an entry that does not
  parse (lemma \<open>installKeys_skip\<close>). It never reads the status code, though: a reply with
  status 500 whose body is the JSON document \<^verbatim>\<open>{}\<close> makes \<open>refreshPublicKeys\<close> return
  no error.
\<close>

theorem refresh_ignores_status:
  "http_Get failing_lib (certsURL (ka demo_process)) (requests demo_process)
     = Some \<lparr>StatusCode = 500, Body = ''{}''\<rparr>
   \<and> refreshPublicKeys failing_lib demo_process = (None, demo_process\<lparr>requests := 1\<rparr>)"
  by (simp add: code_defs demo_defs)

subsection \<open>C4: the audience\<close>

text \<open>
  C4. The audience check passes exactly when some element of the audience list is the
  configured client identifier or the string \<^verbatim>\<open>account\<close>; and \<open>ValidateToken\<close> fails on
  every token whose audience list does not pass it, whatever the signature, the temporal
  claims and the issuer are.
\<close>

theorem audience_check:
  "(validateAudience k audience \<longleftrightarrow>
      (\<exists>aud \<in> set audience. aud = clientID k \<or> aud = ''account''))
   \<and> (jwt_ParseUnverified lib s = Some t \<longrightarrow>
        \<not> validateAudience (ka p) (Audience (Claims t)) \<longrightarrow>
        (\<exists>err. fst (ValidateToken lib s p) = Inl err))"
proof (intro conjI impI)
  show "validateAudience k audience \<longleftrightarrow>
      (\<exists>aud \<in> set audience. aud = clientID k \<or> aud = ''account'')"
    by (rule validateAudience_iff)
next
  assume parse: "jwt_ParseUnverified lib s = Some t"
    and aud: "\<not> validateAudience (ka p) (Audience (Claims t))"
  from aud have "\<exists>err. checked lib (ka p) t key = Inl err" for key
    by (simp add: checked_def)
  then show "\<exists>err. fst (ValidateToken lib s p) = Inl err"
    by (simp add: ValidateToken_result[OF parse] split: sum.splits)
qed

text \<open>
  The scenario of the specification with audience \<^verbatim>\<open>other-app\<close>: signature, temporal
  claims and issuer are valid, and the token is rejected for its audience.
\<close>

theorem audience_check_witness:
  "jwt_ParseUnverified demo_lib ''rs256.k1.other-app''
     = Some (demo_token (SigningMethodRSA ''RS256'') ''RS256'' ''k1''
               (demo_claims demo_issuer [''other-app'']))
   \<and> \<not> validateAudience (ka demo_process) [''other-app'']
   \<and> validateAudience (ka demo_process) [''other-app'', ''account'']
   \<and> fst (ValidateToken demo_lib ''rs256.k1.other-app'' demo_process) = Inl InvalidAudience"
proof -
  let ?t = "demo_token (SigningMethodRSA ''RS256'') ''RS256'' ''k1''
               (demo_claims demo_issuer [''other-app''])"
  have h1: "jwt_ParseUnverified demo_lib ''rs256.k1.other-app'' = Some ?t"
    by (simp add: demo_defs)
  have h2: "\<not> validateAudience (ka demo_process) (Audience (Claims ?t))"
    by (simp add: demo_defs)
  have "\<exists>err. fst (ValidateToken demo_lib ''rs256.k1.other-app'' demo_process) = Inl err"
    using audience_check[of "ka demo_process" "[]" demo_lib "''rs256.k1.other-app''" ?t demo_process] h1 h2
    by blast
  moreover have "fst (ValidateToken demo_lib ''rs256.k1.other-app'' demo_process) = Inl InvalidAudience"
    by (simp add: code_defs demo_defs)
  moreover have "validateAudience (ka demo_process) [''other-app'', ''account'']"
    by (simp add: demo_defs)
  ultimately show ?thesis using h1 h2 by (simp add: demo_defs)
qed

subsection \<open>C5: the issuer\<close>

text \<open>
  C5. \<open>ValidateToken\<close> fails on every token whose issuer is not, character for
  character, the server URL followed by \<^verbatim>\<open>/realms/\<close> and the realm, whatever the
  signature is.
\<close>

theorem issuer_check:
  assumes "jwt_ParseUnverified lib s = Some t"
    and "Issuer (Claims t) \<noteq> serverURL (ka p) @ ''/realms/'' @ realm (ka p)"
  shows "\<exists>err. fst (ValidateToken lib s p) = Inl err"
proof -
  from assms(2) have "\<exists>err. checked lib (ka p) t key = Inl err" for key
    by (simp add: checked_def expectedIssuer_def)
  then show ?thesis
    by (simp add: ValidateToken_result[OF assms(1)] split: sum.splits)
qed

text \<open>An issuer that differs by a trailing slash only is rejected.\<close>

theorem issuer_check_witness:
  "jwt_ParseUnverified demo_lib ''rs256.k1.slash''
     = Some (demo_token (SigningMethodRSA ''RS256'') ''RS256'' ''k1''
               (demo_claims (demo_issuer @ ''/'') [''payforward-app'']))
   \<and> demo_issuer @ ''/'' \<noteq> serverURL (ka demo_process) @ ''/realms/'' @ realm (ka demo_process)
   \<and> (\<exists>err. fst (ValidateToken demo_lib ''rs256.k1.slash'' demo_process) = Inl err)"
proof -
  let ?t = "demo_token (SigningMethodRSA ''RS256'') ''RS256'' ''k1''
               (demo_claims (demo_issuer @ ''/'') [''payforward-app''])"
  have h1: "jwt_ParseUnverified demo_lib ''rs256.k1.slash'' = Some ?t"
    by (simp add: demo_defs)
  have h2: "Issuer (Claims ?t) \<noteq> serverURL (ka demo_process) @ ''/realms/'' @ realm (ka demo_process)"
    by (simp add: demo_defs)
  from issuer_check[OF h1 h2] h1 h2 show ?thesis by (simp add: demo_defs)
qed

subsection \<open>C6: the signing algorithm\<close>

text \<open>
  C6. On a token whose signing method is not of type \<^verbatim>\<open>*jwt.SigningMethodRSA\<close>,
  \<open>ValidateToken\<close> fails with the error of the key function, which the parser calls
  before it verifies the signature; the cache is neither read nor refreshed, so the
  outcome is the same whether or not the token's key identifier is in the cache. A
  token string that the parser itself rejects, as it does when the header's \<^verbatim>\<open>alg\<close> is
  missing or names no signing method, fails with the parser's error, before the key
  function, and the process is unchanged as well.
\<close>

theorem non_RSA_rejected:
  "(jwt_ParseUnverified lib s = Some t \<and> (\<forall>a. Method t \<noteq> SigningMethodRSA a) \<longrightarrow>
      ValidateToken lib s p =
        (Inl (FailedToParseToken (ErrTokenUnverifiable
               (UnexpectedSigningMethod (Header t ''alg'')))), p))
   \<and> (jwt_ParseUnverified lib s = None \<longrightarrow>
        ValidateToken lib s p = (Inl (FailedToParseToken (jwt_ParseError lib s)), p))"
proof (intro conjI impI)
  assume "jwt_ParseUnverified lib s = Some t \<and> (\<forall>a. Method t \<noteq> SigningMethodRSA a)"
  then show "ValidateToken lib s p =
        (Inl (FailedToParseToken (ErrTokenUnverifiable
               (UnexpectedSigningMethod (Header t ''alg'')))), p)"
    by (simp add: ValidateToken_not_RSA)
next
  assume "jwt_ParseUnverified lib s = None"
  then show "ValidateToken lib s p = (Inl (FailedToParseToken (jwt_ParseError lib s)), p)"
    by (simp add: ValidateToken_def ParseWithClaims_def)
qed

text \<open>An HMAC token that names the cached key \<^verbatim>\<open>k1\<close> is rejected.\<close>

theorem non_RSA_rejected_witness:
  "jwt_ParseUnverified demo_lib ''hs256.k1''
     = Some (demo_token (SigningMethodHMAC ''HS256'') ''HS256'' ''k1''
               (demo_claims demo_issuer [''payforward-app'']))
   \<and> publicKeys (ka demo_process) ''k1'' = Some key1
   \<and> ValidateToken demo_lib ''hs256.k1'' demo_process =
       (Inl (FailedToParseToken (ErrTokenUnverifiable
              (UnexpectedSigningMethod (Some (JString ''HS256''))))), demo_process)"
proof -
  let ?t = "demo_token (SigningMethodHMAC ''HS256'') ''HS256'' ''k1''
               (demo_claims demo_issuer [''payforward-app''])"
  have h1: "jwt_ParseUnverified demo_lib ''hs256.k1'' = Some ?t"
    by (simp add: demo_defs)
  have h2: "\<forall>a. Method ?t \<noteq> SigningMethodRSA a"
    by (simp add: demo_defs)
  from non_RSA_rejected[of demo_lib "''hs256.k1''" ?t demo_process] h1 h2 show ?thesis
    by (simp add: demo_defs)
qed

subsection \<open>C7: roles\<close>

text \<open>
  C7. \<open>HasRole\<close> is a total function into the truth values, and it is true exactly when
  the role is among the realm roles or among the roles of the entry that the resource
  access map has for the configured client identifier. Hence roles under another
  client's entry, and roles that occur nowhere, give false.
\<close>

theorem HasRole_realm_or_client:
  "HasRole k claims role \<longleftrightarrow>
     role \<in> set (Roles (RealmAccess claims))
     \<or> (\<exists>a. ResourceAccess claims (clientID k) = Some a \<and> role \<in> set (Roles a))"
  by (auto simp: HasRole_def rangeRoles_iff split: option.splits)

text \<open>
  A realm role and a role of the configured client are found; a role of another client
  and a role that occurs nowhere are not.
\<close>

theorem HasRole_realm_or_client_witness:
  "HasRole demo_ka (demo_claims demo_issuer [''payforward-app'']) ''user''
   \<and> HasRole demo_ka (demo_claims demo_issuer [''payforward-app'']) ''editor''
   \<and> \<not> HasRole demo_ka (demo_claims demo_issuer [''payforward-app'']) ''admin''
   \<and> \<not> HasRole demo_ka (demo_claims demo_issuer [''payforward-app'']) ''owner''"
  using HasRole_realm_or_client[of demo_ka "demo_claims demo_issuer [''payforward-app'']" "''user''"]
    HasRole_realm_or_client[of demo_ka "demo_claims demo_issuer [''payforward-app'']" "''editor''"]
    HasRole_realm_or_client[of demo_ka "demo_claims demo_issuer [''payforward-app'']" "''admin''"]
    HasRole_realm_or_client[of demo_ka "demo_claims demo_issuer [''payforward-app'']" "''owner''"]
  by (simp add: demo_defs)

subsection \<open>C8: a valid token\<close>

text \<open>
  C8, as the code has it. Take a token that the parser accepts, whose signing method is
  of type \<^verbatim>\<open>*jwt.SigningMethodRSA\<close> (RS256, RS384 or RS512), whose key identifier is
  in the cache, whose signature verifies under the cached key, whose
  temporal claims the parser's validator accepts, whose issuer is the server URL
  followed by \<^verbatim>\<open>/realms/\<close> and the realm, and whose audience list contains the client
  identifier or \<^verbatim>\<open>account\<close>. Then \<open>ValidateToken\<close> succeeds without touching the cache,
  and subject and email of the claims it returns are those of the token.
\<close>

theorem valid_token_accepted:
  assumes "jwt_ParseUnverified lib s = Some t"
    and "Method t = SigningMethodRSA a"
    and "Header t ''kid'' = Some (JString kid)"
    and "publicKeys (ka p) kid = Some key"
    and "jwt_Verify lib t key"
    and "jwt_Validate lib (Claims t)"
    and "Issuer (Claims t) = serverURL (ka p) @ ''/realms/'' @ realm (ka p)"
    and "\<exists>aud \<in> set (Audience (Claims t)). aud = clientID (ka p) \<or> aud = ''account''"
  shows "\<exists>claims. ValidateToken lib s p = (Inr claims, p)
           \<and> Subject claims = Subject (Claims t) \<and> Email claims = Email (Claims t)"
proof -
  have "checked lib (ka p) t key = Inr (Claims t)"
    using assms(5-8) by (simp add: checked_def expectedIssuer_def validateAudience_iff)
  with ValidateToken_cached[OF assms(1-4)] show ?thesis by simp
qed

text \<open>The scenario of the specification: key \<^verbatim>\<open>k1\<close>, audience \<^verbatim>\<open>payforward-app\<close>.\<close>

theorem valid_token_accepted_witness:
  "jwt_ParseUnverified demo_lib ''rs256.k1''
     = Some (demo_token (SigningMethodRSA ''RS256'') ''RS256'' ''k1''
               (demo_claims demo_issuer [''payforward-app'']))
   \<and> publicKeys (ka demo_process) ''k1'' = Some key1
   \<and> (\<exists>claims. ValidateToken demo_lib ''rs256.k1'' demo_process = (Inr claims, demo_process)
         \<and> Subject claims = ''user-1'' \<and> Email claims = ''ann@example.org'')"
proof -
  let ?t = "demo_token (SigningMethodRSA ''RS256'') ''RS256'' ''k1''
               (demo_claims demo_issuer [''payforward-app''])"
  have h1: "jwt_ParseUnverified demo_lib ''rs256.k1'' = Some ?t"
    by (simp add: demo_defs)
  have h2: "Method ?t = SigningMethodRSA ''RS256''" by (simp add: demo_defs)
  have h3: "Header ?t ''kid'' = Some (JString ''k1'')" by (simp add: demo_defs)
  have h4: "publicKeys (ka demo_process) ''k1'' = Some key1" by (simp add: demo_defs)
  have h5: "jwt_Verify demo_lib ?t key1" by (simp add: demo_defs)
  have h6: "jwt_Validate demo_lib (Claims ?t)" by (simp add: demo_defs)
  have h7: "Issuer (Claims ?t) = serverURL (ka demo_process) @ ''/realms/'' @ realm (ka demo_process)"
    by (simp add: demo_defs)
  have h8: "\<exists>aud \<in> set (Audience (Claims ?t)). aud = clientID (ka demo_process) \<or> aud = ''account''"
    by (simp add: demo_defs)
  have s: "Subject (Claims ?t) = ''user-1''" "Email (Claims ?t) = ''ann@example.org''"
    by (simp_all add: demo_defs)
  from valid_token_accepted[OF h1 h2 h3 h4 h5 h6 h7 h8] h1 h4 s show ?thesis by simp
qed

text \<open>
  Where the statement of the specification fails. A token signed with RSASSA-PSS by the
  key \<^verbatim>\<open>k1\<close> has its key identifier in the cache, a signature that verifies, valid
  temporal claims, the right issuer and the right audience; its signing method is a
  \<^verbatim>\<open>*jwt.SigningMethodRSAPSS\<close>, which the key function does not accept.
\<close>

theorem pss_token_counterexample:
  "jwt_ParseUnverified demo_lib ''ps256.k1''
     = Some (demo_token (SigningMethodRSAPSS ''PS256'') ''PS256'' ''k1''
               (demo_claims demo_issuer [''payforward-app'']))
   \<and> publicKeys (ka demo_process) ''k1'' = Some key1
   \<and> jwt_Verify demo_lib (demo_token (SigningMethodRSAPSS ''PS256'') ''PS256'' ''k1''
                             (demo_claims demo_issuer [''payforward-app''])) key1
   \<and> jwt_Validate demo_lib (demo_claims demo_issuer [''payforward-app''])
   \<and> demo_issuer = serverURL (ka demo_process) @ ''/realms/'' @ realm (ka demo_process)
   \<and> validateAudience (ka demo_process) [''payforward-app'']
   \<and> ValidateToken demo_lib ''ps256.k1'' demo_process
       = (Inl (FailedToParseToken (ErrTokenUnverifiable
                (UnexpectedSigningMethod (Some (JString ''PS256''))))), demo_process)"
  by (simp add: code_defs demo_defs)

subsection \<open>C10: the cache only grows\<close>

text \<open>
  C10. Once a key identifier is in the cache, it is in the cache after every sequence of
  refreshes and validations, and \<open>getPublicKey\<close> returns a key for it without a
  refresh. If moreover no later reply of the provider lists the identifier, the entry
  keeps the very key it had, and every token with that identifier that was accepted
  before is accepted afterwards, with the same claims.
\<close>

theorem cache_only_grows:
  assumes "publicKeys (ka p) kid = Some key"
  shows "(\<exists>key'. publicKeys (ka (run lib es p)) kid = Some key'
            \<and> getPublicKey lib kid (run lib es p) = (Inr key', run lib es p))
     \<and> ((\<forall>n resp jwks. requests p \<le> n \<and> http_Get lib (certsURL (ka p)) n = Some resp
             \<and> json_Decode lib (Body resp) = Some jwks \<longrightarrow> kid \<notin> Kid ` set (Keys jwks)) \<longrightarrow>
          publicKeys (ka (run lib es p)) kid = Some key
          \<and> (\<forall>s t claims. jwt_ParseUnverified lib s = Some t
                \<and> Header t ''kid'' = Some (JString kid)
                \<and> ValidateToken lib s p = (Inr claims, p) \<longrightarrow>
              ValidateToken lib s (run lib es p) = (Inr claims, run lib es p)))"
proof (intro conjI impI allI)
  from run_keeps[OF assms] obtain key' where k: "publicKeys (ka (run lib es p)) kid = Some key'"
    by blast
  then show "\<exists>key'. publicKeys (ka (run lib es p)) kid = Some key'
            \<and> getPublicKey lib kid (run lib es p) = (Inr key', run lib es p)"
    by (simp add: getPublicKey_cached)
next
  assume gone: "\<forall>n resp jwks. requests p \<le> n \<and> http_Get lib (certsURL (ka p)) n = Some resp
             \<and> json_Decode lib (Body resp) = Some jwks \<longrightarrow> kid \<notin> Kid ` set (Keys jwks)"
  then have "publicKeys (ka (run lib es p)) kid = publicKeys (ka p) kid"
    by (intro run_untouched) blast
  with assms show same: "publicKeys (ka (run lib es p)) kid = Some key" by simp
  fix s t claims
  assume h: "jwt_ParseUnverified lib s = Some t
                \<and> Header t ''kid'' = Some (JString kid)
                \<and> ValidateToken lib s p = (Inr claims, p)"
  then obtain a where a: "Method t = SigningMethodRSA a"
    using ValidateToken_not_RSA[of lib s t p] by (cases "Method t") auto
  obtain m where m: "ka (run lib es p) = (ka p)\<lparr>publicKeys := m\<rparr>" using run_ka by blast
  from h a assms have "checked lib (ka p) t key = Inr claims"
    using ValidateToken_cached[of lib s t a kid p key] by simp
  with m have "checked lib (ka (run lib es p)) t key = Inr claims" by simp
  with h a same show "ValidateToken lib s (run lib es p) = (Inr claims, run lib es p)"
    using ValidateToken_cached[of lib s t a kid "run lib es p" key] by simp
qed

text \<open>
  The provider of the concrete deployment never lists \<^verbatim>\<open>k1\<close>. After a refresh, a
  validation and another refresh, the key is still cached and its token still accepted.
\<close>

theorem cache_only_grows_witness:
  "publicKeys (ka demo_process) ''k1'' = Some key1
   \<and> \<not> (\<exists>n resp jwks. requests demo_process \<le> n
         \<and> http_Get demo_lib (certsURL (ka demo_process)) n = Some resp
         \<and> json_Decode demo_lib (Body resp) = Some jwks \<and> ''k1'' \<in> Kid ` set (Keys jwks))
   \<and> requests (run demo_lib [Tick, Request ''rs256.k2'', Tick] demo_process) = 2
   \<and> publicKeys (ka (run demo_lib [Tick, Request ''rs256.k2'', Tick] demo_process)) ''k1'' = Some key1
   \<and> ValidateToken demo_lib ''rs256.k1'' (run demo_lib [Tick, Request ''rs256.k2'', Tick] demo_process)
       = (Inr (demo_claims demo_issuer [''payforward-app'']),
          run demo_lib [Tick, Request ''rs256.k2'', Tick] demo_process)"
proof -
  let ?t = "demo_token (SigningMethodRSA ''RS256'') ''RS256'' ''k1''
               (demo_claims demo_issuer [''payforward-app''])"
  let ?es = "[Tick, Request ''rs256.k2'', Tick]"
  have h1: "publicKeys (ka demo_process) ''k1'' = Some key1" by (simp add: demo_defs)
  have h2: "\<forall>n resp jwks. requests demo_process \<le> n
         \<and> http_Get demo_lib (certsURL (ka demo_process)) n = Some resp
         \<and> json_Decode demo_lib (Body resp) = Some jwks \<longrightarrow> ''k1'' \<notin> Kid ` set (Keys jwks)"
    by (auto simp: demo_defs certsURL_def split: if_splits)
  have h3: "jwt_ParseUnverified demo_lib ''rs256.k1'' = Some ?t" by (simp add: demo_defs)
  have h4: "Header ?t ''kid'' = Some (JString ''k1'')"
    by (simp add: demo_defs)
  have h5: "ValidateToken demo_lib ''rs256.k1'' demo_process
              = (Inr (demo_claims demo_issuer [''payforward-app'']), demo_process)"
    by (simp add: code_defs demo_defs)
  have r: "requests (run demo_lib ?es demo_process) = 2"
    by (simp add: code_defs demo_defs)
  from cache_only_grows[OF h1, of demo_lib ?es] h1 h2 h3 h4 h5 r show ?thesis
    by blast
qed

end
